theory Spec2Isabelle
  imports Main "HOL-Library.Word" "HOL-Library.Sublist"
begin

unbundle bit_operations_syntax

section \<open>Errors and identities\<close>

text \<open>
  \<^verbatim>\<open>kes.Identity\<close> is a string type. \<^verbatim>\<open>kes.NewError(code, msg)\<close> builds an error
  value from an HTTP status code and a message. \<^verbatim>\<open>kes.ErrEnclaveNotFound\<close> is a
  package-level error value that the vault returns by name; it is kept as a constant of its
  own.
\<close>

type_synonym Identity = string

datatype Error = NewError int string | ErrEnclaveNotFound

definition StatusOK :: int where
  "StatusOK = 200"

definition StatusNotImplemented :: int where
  "StatusNotImplemented = 501"

section \<open>The stateless vault (internal/sys/stateless-vault.go)\<close>

text \<open>
  An \<^verbatim>\<open>Enclave\<close> bundles a key store, a policy set and an identity set. The three are
  interface values handed to the constructor; the vault only stores them, so their types
  are left open.
\<close>

record ('k, 'p, 'i) Enclave =
  keys :: 'k
  policies :: 'p
  identities :: 'i

record ('k, 'p, 'i) statelessVault =
  enclave :: "('k, 'p, 'i) Enclave"
  operator :: Identity

definition NewStatelessVault ::
  "Identity \<Rightarrow> 'k \<Rightarrow> 'p \<Rightarrow> 'i \<Rightarrow> ('k, 'p, 'i) statelessVault" where
  "NewStatelessVault operator' keys' policies' identites =
     \<lparr>enclave = \<lparr>keys = keys', policies = policies', identities = identites\<rparr>,
      operator = operator'\<rparr>"

text \<open>
  The methods have a pointer receiver, so each could update the vault. Every method is
  modelled as returning its Go result together with the vault after the call. A Go
  \<^verbatim>\<open>error\<close> result is an \<open>Error option\<close> (\<open>None\<close> is \<^verbatim>\<open>nil\<close>); a
  \<^verbatim>\<open>(value, error)\<close> result is \<open>Error + value\<close>.
\<close>

definition Seal ::
  "('k, 'p, 'i) statelessVault \<Rightarrow> Error option \<times> ('k, 'p, 'i) statelessVault" where
  "Seal v = (None, v)"

definition Unseal ::
  "('k, 'p, 'i) statelessVault \<Rightarrow> Error option \<times> ('k, 'p, 'i) statelessVault" where
  "Unseal v = (None, v)"

definition Operator ::
  "('k, 'p, 'i) statelessVault \<Rightarrow> (Error + Identity) \<times> ('k, 'p, 'i) statelessVault" where
  "Operator v = (Inr (operator v), v)"

definition CreateEnclave ::
  "('k, 'p, 'i) statelessVault \<Rightarrow> string \<Rightarrow>
     (Error + ('k, 'p, 'i) Enclave) \<times> ('k, 'p, 'i) statelessVault" where
  "CreateEnclave v name =
     (Inl (NewError StatusNotImplemented ''creating encalves is not supported''), v)"

definition GetEnclave ::
  "('k, 'p, 'i) statelessVault \<Rightarrow> string \<Rightarrow>
     (Error + ('k, 'p, 'i) Enclave) \<times> ('k, 'p, 'i) statelessVault" where
  "GetEnclave v name = (if name = '''' then (Inr (enclave v), v) else (Inl ErrEnclaveNotFound, v))"

definition DeleteEnclave ::
  "('k, 'p, 'i) statelessVault \<Rightarrow> string \<Rightarrow> Error option \<times> ('k, 'p, 'i) statelessVault" where
  "DeleteEnclave v name =
     (Some (NewError StatusNotImplemented ''deleting encalves is not supported''), v)"

text \<open>
  A history of calls on one vault: the calls are made in order, each on the vault the
  previous call left. \<open>calls\<close> returns the vault after the last call.
\<close>

datatype vault_call =
    CallSeal
  | CallUnseal
  | CallOperator
  | CallCreateEnclave string
  | CallGetEnclave string
  | CallDeleteEnclave string

fun call :: "('k, 'p, 'i) statelessVault \<Rightarrow> vault_call \<Rightarrow> ('k, 'p, 'i) statelessVault" where
  "call v CallSeal = snd (Seal v)"
| "call v CallUnseal = snd (Unseal v)"
| "call v CallOperator = snd (Operator v)"
| "call v (CallCreateEnclave name) = snd (CreateEnclave v name)"
| "call v (CallGetEnclave name) = snd (GetEnclave v name)"
| "call v (CallDeleteEnclave name) = snd (DeleteEnclave v name)"

definition calls ::
  "('k, 'p, 'i) statelessVault \<Rightarrow> vault_call list \<Rightarrow> ('k, 'p, 'i) statelessVault" where
  "calls v cs = foldl call v cs"

section \<open>Computing an identity from a certificate (cmd/kes identity commands)\<close>

type_synonym byte = "8 word"

text \<open>
  \<^verbatim>\<open>hex.EncodeToString\<close> of the Go library: for every byte \<open>v\<close> of the input it writes
  \<^verbatim>\<open>hextable[v>>4]\<close> and \<^verbatim>\<open>hextable[v&0x0f]\<close>.
\<close>

definition hextable :: string where
  "hextable = ''0123456789abcdef''"

fun EncodeToString :: "byte list \<Rightarrow> string" where
  "EncodeToString [] = []"
| "EncodeToString (v # src) =
     hextable ! unat (drop_bit 4 v) # hextable ! unat (v AND 0x0f) # EncodeToString src"

text \<open>
  What the specification asks for, in its own words: the bytes rendered as a lowercase hex
  string. Every byte gives two characters, the digit of its value divided by 16 and the
  digit of the remainder; the digits 0 to 9 are the characters from code 48 (\<open>0\<close>), the
  digits 10 to 15 the characters from code 97 (\<open>a\<close>).
\<close>

definition hex_digit :: "nat \<Rightarrow> char" where
  "hex_digit n = (if n < 10 then char_of (48 + n) else char_of (87 + n))"

fun lowercase_hex :: "byte list \<Rightarrow> string" where
  "lowercase_hex [] = []"
| "lowercase_hex (v # src) =
     hex_digit (unat v div 16) # hex_digit (unat v mod 16) # lowercase_hex src"

text \<open>
  The library calls of the \<^verbatim>\<open>identify\<close> closure of \<^verbatim>\<open>ofIdentityCmd\<close>:
  \<^verbatim>\<open>os.ReadFile\<close>, \<^verbatim>\<open>xhttp.FilterPEM\<close>, \<^verbatim>\<open>pem.Decode\<close> (its first result, which is
  \<^verbatim>\<open>nil\<close> when the data holds no PEM block), \<^verbatim>\<open>x509.ParseCertificate\<close> and
  \<^verbatim>\<open>sha256.Sum256\<close>. They are parameters of the model.
\<close>

record pem_Block =
  Type :: string
  Bytes :: "byte list"

record Certificate =
  RawSubjectPublicKeyInfo :: "byte list"

record identity_env =
  ReadFile :: "string \<Rightarrow> Error + byte list"
  FilterPEM :: "byte list \<Rightarrow> (pem_Block \<Rightarrow> bool) \<Rightarrow> Error + byte list"
  pem_Decode :: "byte list \<Rightarrow> pem_Block option"
  ParseCertificate :: "byte list \<Rightarrow> Error + Certificate"
  Sum256 :: "byte list \<Rightarrow> byte list"

text \<open>
  The closure returns \<^verbatim>\<open>("", err)\<close> with the error of \<^verbatim>\<open>os.ReadFile\<close>, or with
  \<^verbatim>\<open>fmt.Errorf("failed to parse certificate in %q: %v", filename, err)\<close>. When
  \<^verbatim>\<open>pem.Decode\<close> returns no block, \<^verbatim>\<open>next.Bytes\<close> dereferences \<^verbatim>\<open>nil\<close> and the
  program panics.
\<close>

datatype identify_error =
    ReadFileError Error
  | FailedToParseCertificate string Error
  | NilPointerPanic

definition identify :: "identity_env \<Rightarrow> string \<Rightarrow> identify_error + Identity" where
  "identify env filename =
     (case ReadFile env filename of
        Inl err \<Rightarrow> Inl (ReadFileError err)
      | Inr pemBlock \<Rightarrow>
          (case FilterPEM env pemBlock (\<lambda>b. Type b = ''CERTIFICATE'') of
             Inl err \<Rightarrow> Inl (FailedToParseCertificate filename err)
           | Inr pemBlock' \<Rightarrow>
               (case pem_Decode env pemBlock' of
                  None \<Rightarrow> Inl NilPointerPanic
                | Some next \<Rightarrow>
                    (case ParseCertificate env (Bytes next) of
                       Inl err \<Rightarrow> Inl (FailedToParseCertificate filename err)
                     | Inr cert \<Rightarrow>
                         Inr (EncodeToString (Sum256 env (RawSubjectPublicKeyInfo cert)))))))"

text \<open>
  The end of \<^verbatim>\<open>newIdentityCmd\<close>, after the key and the certificate have been written:
  when \<^verbatim>\<open>isTerm(os.Stdout)\<close> holds, it parses the certificate it has just created and,
  when that succeeds, prints its identity. \<open>newIdentityCmd_identity\<close> is the identity it
  prints, if any; \<open>isTerm_Stdout\<close> is the result of \<^verbatim>\<open>isTerm(os.Stdout)\<close>.
\<close>

definition newIdentityCmd_identity ::
  "identity_env \<Rightarrow> bool \<Rightarrow> byte list \<Rightarrow> Identity option" where
  "newIdentityCmd_identity env isTerm_Stdout certBytes =
     (if isTerm_Stdout then
        (case ParseCertificate env certBytes of
           Inl err \<Rightarrow> None
         | Inr cert \<Rightarrow> Some (EncodeToString (Sum256 env (RawSubjectPublicKeyInfo cert))))
      else None)"

section \<open>The identity API handlers (internal/http/identity-api.go)\<close>

text \<open>
  \<^verbatim>\<open>time.Time\<close> values are opaque to the handlers; they are numbered, the zero time
  being 0. \<^verbatim>\<open>auth.IdentityInfo\<close> and \<^verbatim>\<open>auth.Policy\<close> are given with the fields the
  handlers read.
\<close>

type_synonym Time = nat

record IdentityInfo =
  IsAdmin :: bool
  Policy :: string
  CreatedAt :: Time
  CreatedBy :: Identity

record auth_Policy =
  Allow :: "string list"
  Deny :: "string list"

text \<open>
  The request body is a reader. \<^verbatim>\<open>http.MaxBytesReader(w, body, n)\<close> wraps a reader in one
  that fails once more than \<open>n\<close> bytes are read from it; wrapping reads nothing.
\<close>

datatype body = Reader "byte list" | MaxBytesReader body int

record Request =
  Method :: string
  URLPath :: string
  Header :: "(string \<times> string) list"
  PeerCertificates :: "Certificate list"
  Body :: body

definition MethodGet :: string where
  "MethodGet = ''GET''"


text \<open>
  The values the handlers hand to the JSON encoder, one constructor for each handler's
  \<^verbatim>\<open>Response\<close> struct, with the fields in the order of the struct:
  \<^item> \<open>DescribeResponse IsAdmin Policy CreatedAt CreatedBy\<close>;
  \<^item> \<open>SelfDescribeResponse Identity IsAdmin PolicyName CreatedAt CreatedBy Allow Deny\<close>
    (the last two are the fields of the inline policy);
  \<^item> \<open>ListResponse Identity IsAdmin Policy CreatedAt CreatedBy Err\<close>, where \<open>Err\<close> is
    a string, as in the struct. It has the tag \<^verbatim>\<open>omitempty\<close>: a value whose \<open>Err\<close> is
    empty is written without the field \<^verbatim>\<open>error\<close>.
\<close>

datatype Response =
    DescribeResponse bool string Time Identity
  | SelfDescribeResponse Identity bool string Time Identity "string list" "string list"
  | ListResponse Identity bool string Time Identity string

text \<open>
  What a handler does is recorded as the sequence of its effects, in order: the calls on
  the response writer (\<^verbatim>\<open>audit\<close>, \<^verbatim>\<open>w.Header().Set\<close>, \<^verbatim>\<open>Error(w, err)\<close>,
  \<^verbatim>\<open>encoder.Encode\<close>, \<^verbatim>\<open>w.WriteHeader\<close>) and the calls on the vault, the enclave and
  the iterator. \<open>Encode v\<close> is a call of the encoder that wrote \<open>v\<close>;
  \<open>EncodeFailed v err\<close> is a call that returned the error \<open>err\<close>. The handler holds a
  pointer to the request and assigns to its fields; \<open>Call_lookupEnclave\<close> and
  \<open>Call_VerifyRequest\<close> carry the request as it is when it is handed over.
\<close>

datatype event =
    Audit
  | SetHeader string string
  | ErrorResponse Error
  | Encode Response
  | EncodeFailed Response Error
  | WriteHeader int
  | Call_lookupEnclave Request
  | Call_VerifyRequest Request
  | Call_GetIdentity Identity
  | Call_GetPolicy string
  | Call_DeleteIdentity Identity
  | Call_ListIdentities
  | Call_Next
  | Call_Close

text \<open>
  An \<^verbatim>\<open>auth.IdentityIterator\<close>: the identities that the successive calls of
  \<^verbatim>\<open>Next\<close> and \<^verbatim>\<open>Identity\<close> yield before \<^verbatim>\<open>Next\<close> returns false, and the result of
  \<^verbatim>\<open>Close\<close>.
\<close>

record IdentityIterator =
  Identities :: "Identity list"
  CloseError :: "Error option"

text \<open>
  The methods of \<^verbatim>\<open>*Enclave\<close> that the handlers call are declared outside this file.
  A handler sees an enclave through the results of these methods.
\<close>

record EnclaveMethods =
  VerifyRequest :: "Request \<Rightarrow> Error option"
  GetIdentity :: "Identity \<Rightarrow> Error + IdentityInfo"
  GetPolicy :: "string \<Rightarrow> Error + auth_Policy"
  DeleteIdentity :: "Identity \<Rightarrow> Error option"
  ListIdentities :: "Error + IdentityIterator"

text \<open>
  The other functions and values the handlers use and this file does not define:
  \<^verbatim>\<open>errMethodNotAllowed\<close>, \<^verbatim>\<open>normalizeURL\<close> (which rewrites the URL path or fails),
  \<^verbatim>\<open>lookupEnclave\<close>, \<^verbatim>\<open>auth.Identify\<close>, \<^verbatim>\<open>validateName\<close>, \<^verbatim>\<open>validatePattern\<close>,
  \<^verbatim>\<open>strings.TrimSpace\<close>, the first result of \<^verbatim>\<open>path.Match\<close>, the method
  \<^verbatim>\<open>Error()\<close> of an error value (\<open>err_Error\<close>, its message, which may be empty), and
  the outcome of the encoder's writes: \<open>EncodeError env n\<close> is the error of the call of
  \<^verbatim>\<open>Encode\<close> made after \<open>n\<close> earlier successful calls, \<open>None\<close> when it writes its
  value.
\<close>

record handler_env =
  errMethodNotAllowed :: Error
  normalizeURL :: "string \<Rightarrow> string \<Rightarrow> Error + string"
  lookupEnclave :: "Request \<Rightarrow> Error + EnclaveMethods"
  Identify :: "Request \<Rightarrow> Identity"
  validateName :: "string \<Rightarrow> Error option"
  validatePattern :: "string \<Rightarrow> Error option"
  TrimSpace :: "string \<Rightarrow> string"
  Match :: "string \<Rightarrow> string \<Rightarrow> bool"
  err_Error :: "Error \<Rightarrow> string"
  EncodeError :: "nat \<Rightarrow> Error option"

definition TrimPrefix :: "string \<Rightarrow> string \<Rightarrow> string" where
  "TrimPrefix s p = (if take (length p) s = p then drop (length p) s else s)"

definition encode :: "handler_env \<Rightarrow> nat \<Rightarrow> Response \<Rightarrow> event" where
  "encode env n v = (case EncodeError env n of None \<Rightarrow> Encode v | Some err \<Rightarrow> EncodeFailed v err)"


definition selfDescribeIdentity :: "handler_env \<Rightarrow> Request \<Rightarrow> event list" where
  "selfDescribeIdentity env r =
     Audit #
     (if Method r \<noteq> MethodGet then
        [SetHeader ''Accept'' MethodGet, ErrorResponse (errMethodNotAllowed env)]
      else case normalizeURL env (URLPath r) ''/v1/identity/self/describe'' of
        Inl err \<Rightarrow> [ErrorResponse err]
      | Inr p \<Rightarrow>
          Call_lookupEnclave (r\<lparr>URLPath := p, Body := MaxBytesReader (Body r) 0\<rparr>) #
          (case lookupEnclave env (r\<lparr>URLPath := p, Body := MaxBytesReader (Body r) 0\<rparr>) of
             Inl err \<Rightarrow> [ErrorResponse err]
           | Inr e \<Rightarrow>
               Call_GetIdentity
                 (Identify env (r\<lparr>URLPath := p, Body := MaxBytesReader (Body r) 0\<rparr>)) #
               (case GetIdentity e
                       (Identify env (r\<lparr>URLPath := p, Body := MaxBytesReader (Body r) 0\<rparr>)) of
                  Inl err \<Rightarrow> [ErrorResponse err]
                | Inr info \<Rightarrow>
                    (if \<not> IsAdmin info then
                       Call_GetPolicy (Policy info) #
                       (case GetPolicy e (Policy info) of
                          Inl err \<Rightarrow> [ErrorResponse err]
                        | Inr pol \<Rightarrow>
                            [encode env 0
                               (SelfDescribeResponse
                                  (Identify env
                                     (r\<lparr>URLPath := p, Body := MaxBytesReader (Body r) 0\<rparr>))
                                  (IsAdmin info) (Policy info) (CreatedAt info) (CreatedBy info)
                                  (Allow pol) (Deny pol))])
                     else
                       [encode env 0
                          (SelfDescribeResponse
                             (Identify env
                                (r\<lparr>URLPath := p, Body := MaxBytesReader (Body r) 0\<rparr>))
                             (IsAdmin info) (Policy info) (CreatedAt info) (CreatedBy info)
                             [] [])]))))"


text \<open>
  The loop of \<^verbatim>\<open>listIdentity\<close> and what follows it, from the identities the iterator
  still has to yield, the flag \<^verbatim>\<open>hasWritten\<close> and the number \<open>n\<close> of calls of the
  encoder made so far. \<open>closeErr\<close> is the result that \<^verbatim>\<open>iterator.Close()\<close> will give.
\<close>

fun listIdentity_loop ::
  "handler_env \<Rightarrow> EnclaveMethods \<Rightarrow> string \<Rightarrow> Error option \<Rightarrow> Identity list \<Rightarrow> bool \<Rightarrow> nat
     \<Rightarrow> event list" where
  "listIdentity_loop env e pattern closeErr [] hasWritten n =
     Call_Next # Call_Close #
     (case closeErr of
        Some err \<Rightarrow>
          (if hasWritten then
             [encode env n (ListResponse '''' False '''' 0 '''' (err_Error env err))]
           else [ErrorResponse err])
      | None \<Rightarrow> (if \<not> hasWritten then [WriteHeader StatusOK] else []))"
| "listIdentity_loop env e pattern closeErr (identity # rest) hasWritten n =
     Call_Next #
     (if \<not> Match env pattern identity then
        listIdentity_loop env e pattern closeErr rest hasWritten n
      else
        Call_GetIdentity identity #
        (case GetIdentity e identity of
           Inl err \<Rightarrow>
             [encode env n (ListResponse '''' False '''' 0 '''' (err_Error env err))]
         | Inr info \<Rightarrow>
             (if \<not> hasWritten then [SetHeader ''Content-Type'' ''application/x-ndjson''] else []) @
             (case EncodeError env n of
                Some err \<Rightarrow>
                  [EncodeFailed
                     (ListResponse identity (IsAdmin info) (Policy info) (CreatedAt info)
                        (CreatedBy info) '''') err]
              | None \<Rightarrow>
                  Encode
                    (ListResponse identity (IsAdmin info) (Policy info) (CreatedAt info)
                       (CreatedBy info) '''') #
                  listIdentity_loop env e pattern closeErr rest True (Suc n))))"

definition listIdentity :: "handler_env \<Rightarrow> Request \<Rightarrow> event list" where
  "listIdentity env r =
     Audit #
     (if Method r \<noteq> MethodGet then
        [SetHeader ''Accept'' MethodGet, ErrorResponse (errMethodNotAllowed env)]
      else case normalizeURL env (URLPath r) ''/v1/identity/list/'' of
        Inl err \<Rightarrow> [ErrorResponse err]
      | Inr p \<Rightarrow>
          Call_lookupEnclave (r\<lparr>URLPath := p, Body := MaxBytesReader (Body r) 0\<rparr>) #
          (case lookupEnclave env (r\<lparr>URLPath := p, Body := MaxBytesReader (Body r) 0\<rparr>) of
             Inl err \<Rightarrow> [ErrorResponse err]
           | Inr e \<Rightarrow>
               Call_VerifyRequest (r\<lparr>URLPath := p, Body := MaxBytesReader (Body r) 0\<rparr>) #
               (case VerifyRequest e (r\<lparr>URLPath := p, Body := MaxBytesReader (Body r) 0\<rparr>) of
                  Some err \<Rightarrow> [ErrorResponse err]
                | None \<Rightarrow>
                    (case validatePattern env
                            (TrimSpace env (TrimPrefix p ''/v1/identity/list/'')) of
                       Some err \<Rightarrow> [ErrorResponse err]
                     | None \<Rightarrow>
                         Call_ListIdentities #
                         (case ListIdentities e of
                            Inl err \<Rightarrow> [ErrorResponse err]
                          | Inr iterator \<Rightarrow>
                              listIdentity_loop env e
                                (TrimSpace env (TrimPrefix p ''/v1/identity/list/''))
                                (CloseError iterator) (Identities iterator) False 0)))))"









subsection \<open>Example requests and environments\<close>

text \<open>
  Concrete inputs for the examples below. \<open>example_enclave get pol ids\<close> authorizes every
  request, looks identities up with \<open>get\<close> and policies with \<open>pol\<close>, and lists the
  identities \<open>ids\<close> with an iterator that closes without error. \<open>example_env e\<close> finds
  the enclave \<open>e\<close> for every request, leaves URL paths as they are, accepts every name and
  pattern, identifies every caller as \<open>caller\<close>, matches a name against the pattern \<open>*\<close>
  or against itself, takes as the message of an error built by \<^verbatim>\<open>kes.NewError\<close> the
  message it was built with, and has an encoder whose writes all succeed.
\<close>

definition example_enclave ::
  "(Identity \<Rightarrow> Error + IdentityInfo) \<Rightarrow> (string \<Rightarrow> Error + auth_Policy) \<Rightarrow> Identity list
     \<Rightarrow> EnclaveMethods" where
  "example_enclave get pol ids =
     \<lparr>VerifyRequest = (\<lambda>r. None), GetIdentity = get, GetPolicy = pol,
      DeleteIdentity = (\<lambda>i. None),
      ListIdentities = Inr \<lparr>Identities = ids, CloseError = None\<rparr>\<rparr>"

definition example_env :: "EnclaveMethods \<Rightarrow> handler_env" where
  "example_env e =
     \<lparr>errMethodNotAllowed = NewError 405 ''method not allowed'',
      normalizeURL = (\<lambda>u p. Inr u), lookupEnclave = (\<lambda>r. Inr e),
      Identify = (\<lambda>r. ''caller''), validateName = (\<lambda>s. None),
      validatePattern = (\<lambda>s. None), TrimSpace = (\<lambda>s. s),
      Match = (\<lambda>p s. p = ''*'' \<or> p = s),
      err_Error = (\<lambda>err. case err of NewError code msg \<Rightarrow> msg
                         | ErrEnclaveNotFound \<Rightarrow> ''enclave not found''),
      EncodeError = (\<lambda>n. None)\<rparr>"

definition example_request :: "string \<Rightarrow> string \<Rightarrow> byte list \<Rightarrow> Request" where
  "example_request m p b =
     \<lparr>Method = m, URLPath = p, Header = [], PeerCertificates = [], Body = Reader b\<rparr>"

definition unreachable :: Error where
  "unreachable = NewError 503 ''backend unreachable''"

definition example_info :: IdentityInfo where
  "example_info = \<lparr>IsAdmin = False, Policy = ''p'', CreatedAt = 7, CreatedBy = ''root''\<rparr>"

definition not_found :: Error where
  "not_found = NewError 404 ''not found''"

definition no_lookup :: "'a \<Rightarrow> Error + 'b" where
  "no_lookup k = Inl unreachable"

definition lookup_in :: "('a \<times> 'b) list \<Rightarrow> 'a \<Rightarrow> Error + 'b" where
  "lookup_in kvs k = (case map_of kvs k of None \<Rightarrow> Inl not_found | Some v \<Rightarrow> Inr v)"

definition fails_from :: "nat \<Rightarrow> nat \<Rightarrow> Error option" where
  "fails_from k n = (if k \<le> n then Some (NewError 500 ''broken pipe'') else None)"

section \<open>The key engine and the envelope codec, from the specification\<close>

text \<open>
  Modelled from the spec: the server-side key engine (\<open>Encrypt\<close>, \<open>Decrypt\<close>) and the
  envelope codec (\<open>Seal\<close>, \<open>Open\<close>) are not among the source files at hand; only the
  integration tests that call them through the client are. The definitions of this section
  follow sections 3, 4.1 to 4.3, 6 and 7 of the specification.

  The cryptographic primitives (HKDF-SHA-256 and the two AEAD constructions) and the key
  store are parameters. The random IV and nonce that \<open>Seal\<close> draws, and the two flags that
  select the algorithm, are explicit inputs. A serialized envelope is a string, whose
  characters are bytes. Section 4.1 bounds the context handed to the codec by 512 KiB
  and does not say what the codec does with a longer one: the codec here takes every
  context, and what is stated below about \<open>Encrypt\<close> returning a ciphertext is stated for
  contexts within that bound.
\<close>

datatype kind = Invalid | NotAuthentic | NotFound | Unreachable

datatype Algorithm = AES256_GCM_HMAC_SHA256 | ChaCha20_Poly1305

record Envelope =
  aead :: Algorithm
  iv :: "byte list"
  nonce :: "byte list"
  bytes :: "byte list"

record KeyEngine =
  valid_name :: "string \<Rightarrow> bool"
  store_Get :: "string \<Rightarrow> kind + byte list"
  HKDF_SHA256 :: "byte list \<Rightarrow> byte list \<Rightarrow> string \<Rightarrow> byte list"
  AEAD_Seal :: "Algorithm \<Rightarrow> byte list \<Rightarrow> byte list \<Rightarrow> byte list \<Rightarrow> byte list \<Rightarrow> byte list"
  AEAD_Open ::
    "Algorithm \<Rightarrow> byte list \<Rightarrow> byte list \<Rightarrow> byte list \<Rightarrow> byte list \<Rightarrow> byte list option"

record SealInput =
  hardware_AES :: bool
  FIPS_mode :: bool
  random_iv :: "byte list"
  random_nonce :: "byte list"

subsection \<open>Base64 and the wire shape of an envelope\<close>

definition base64_table :: string where
  "base64_table = ''ABCDEFGHIJKLMNOPQRSTUVWXYZabcdefghijklmnopqrstuvwxyz0123456789+/''"

definition base64_char :: "nat \<Rightarrow> char" where
  "base64_char n = base64_table ! n"

fun index_of :: "'a \<Rightarrow> 'a list \<Rightarrow> nat option" where
  "index_of x [] = None"
| "index_of x (y # ys) = (if x = y then Some 0 else map_option Suc (index_of x ys))"

definition base64_value :: "char \<Rightarrow> nat option" where
  "base64_value c = index_of c base64_table"

fun base64_encode :: "byte list \<Rightarrow> string" where
  "base64_encode [] = []"
| "base64_encode [a] =
     [base64_char (unat a div 4), base64_char (unat a mod 4 * 16), CHR ''='', CHR ''='']"
| "base64_encode [a, b] =
     [base64_char (unat a div 4), base64_char (unat a mod 4 * 16 + unat b div 16),
      base64_char (unat b mod 16 * 4), CHR ''='']"
| "base64_encode (a # b # c # src) =
     base64_char (unat a div 4) # base64_char (unat a mod 4 * 16 + unat b div 16) #
     base64_char (unat b mod 16 * 4 + unat c div 64) # base64_char (unat c mod 64) #
     base64_encode src"

fun base64_decode :: "string \<Rightarrow> byte list option" where
  "base64_decode [] = Some []"
| "base64_decode (c0 # c1 # c2 # c3 # s) =
     (if s = [] \<and> c3 = CHR ''='' then
        (if c2 = CHR ''='' then
           (case (base64_value c0, base64_value c1) of
              (Some x0, Some x1) \<Rightarrow> Some [of_nat (x0 * 4 + x1 div 16)]
            | _ \<Rightarrow> None)
         else
           (case (base64_value c0, base64_value c1, base64_value c2) of
              (Some x0, Some x1, Some x2) \<Rightarrow>
                Some [of_nat (x0 * 4 + x1 div 16), of_nat (x1 mod 16 * 16 + x2 div 4)]
            | _ \<Rightarrow> None))
      else
        (case (base64_value c0, base64_value c1, base64_value c2, base64_value c3,
               base64_decode s) of
           (Some x0, Some x1, Some x2, Some x3, Some bs) \<Rightarrow>
             Some (of_nat (x0 * 4 + x1 div 16) # of_nat (x1 mod 16 * 16 + x2 div 4) #
                   of_nat (x2 mod 4 * 64 + x3) # bs)
         | _ \<Rightarrow> None))"
| "base64_decode s = None"

definition algorithm_id :: "Algorithm \<Rightarrow> string" where
  "algorithm_id a =
     (case a of AES256_GCM_HMAC_SHA256 \<Rightarrow> ''AES-256-GCM-HMAC-SHA-256''
      | ChaCha20_Poly1305 \<Rightarrow> ''ChaCha20-Poly1305'')"

definition algorithm_of :: "string \<Rightarrow> Algorithm option" where
  "algorithm_of s =
     (if s = ''AES-256-GCM-HMAC-SHA-256'' then Some AES256_GCM_HMAC_SHA256
      else if s = ''ChaCha20-Poly1305'' then Some ChaCha20_Poly1305
      else None)"

text \<open>
  The serialized envelope has the wire shape of section 6:
  \<^verbatim>\<open>{ "aead": "<algorithm-id>", "iv": "<b64>", "nonce": "<b64>", "bytes": "<b64>" }\<close>.
\<close>

definition encode_envelope :: "Envelope \<Rightarrow> string" where
  "encode_envelope e =
     ''{ \"aead\": \"'' @ algorithm_id (aead e) @ ''\", \"iv\": \"'' @ base64_encode (iv e) @
     ''\", \"nonce\": \"'' @ base64_encode (nonce e) @ ''\", \"bytes\": \"'' @
     base64_encode (bytes e) @ ''\" }''"

text \<open>
  The parser reads that shape: \<open>expect\<close> consumes a literal, \<open>quoted\<close> splits the input at
  the next double quote. It yields the algorithm identifier as written and the three
  decoded binary fields.
\<close>

definition expect :: "string \<Rightarrow> string \<Rightarrow> string option" where
  "expect lit s = (if take (length lit) s = lit then Some (drop (length lit) s) else None)"

definition quoted :: "string \<Rightarrow> string \<times> string" where
  "quoted s = (takeWhile (\<lambda>c. c \<noteq> CHR 0x22) s, dropWhile (\<lambda>c. c \<noteq> CHR 0x22) s)"

definition parse_envelope :: "string \<Rightarrow> (string \<times> byte list \<times> byte list \<times> byte list) option" where
  "parse_envelope s =
     (case expect ''{ \"aead\": \"'' s of
        None \<Rightarrow> None
      | Some s1 \<Rightarrow>
          (case expect ''\", \"iv\": \"'' (snd (quoted s1)) of
             None \<Rightarrow> None
           | Some s2 \<Rightarrow>
               (case expect ''\", \"nonce\": \"'' (snd (quoted s2)) of
                  None \<Rightarrow> None
                | Some s3 \<Rightarrow>
                    (case expect ''\", \"bytes\": \"'' (snd (quoted s3)) of
                       None \<Rightarrow> None
                     | Some s4 \<Rightarrow>
                         (if snd (quoted s4) \<noteq> ''\" }'' then None
                          else
                            (case (base64_decode (fst (quoted s2)),
                                   base64_decode (fst (quoted s3)),
                                   base64_decode (fst (quoted s4))) of
                               (Some i, Some n, Some b) \<Rightarrow> Some (fst (quoted s1), i, n, b)
                             | _ \<Rightarrow> None))))))"

subsection \<open>Seal and Open\<close>

definition select_algorithm :: "SealInput \<Rightarrow> Algorithm" where
  "select_algorithm inp =
     (if hardware_AES inp \<or> FIPS_mode inp then AES256_GCM_HMAC_SHA256 else ChaCha20_Poly1305)"

definition Seal_envelope :: "KeyEngine \<Rightarrow> SealInput \<Rightarrow> byte list \<Rightarrow> byte list \<Rightarrow> byte list \<Rightarrow> string" where
  "Seal_envelope E inp key plaintext context =
     encode_envelope
       \<lparr>aead = select_algorithm inp, iv = random_iv inp, nonce = random_nonce inp,
        bytes = AEAD_Seal E (select_algorithm inp)
                  (HKDF_SHA256 E key (random_iv inp) ''kes'') (random_nonce inp)
                  plaintext context\<rparr>"

definition Open_envelope :: "KeyEngine \<Rightarrow> byte list \<Rightarrow> string \<Rightarrow> byte list \<Rightarrow> kind + byte list" where
  "Open_envelope E key envelope_bytes context =
     (case parse_envelope envelope_bytes of
        None \<Rightarrow> Inl Invalid
      | Some (a, i, n, b) \<Rightarrow>
          (case algorithm_of a of
             None \<Rightarrow> Inl NotAuthentic
           | Some alg \<Rightarrow>
               (case AEAD_Open E alg (HKDF_SHA256 E key i ''kes'') n b context of
                  None \<Rightarrow> Inl NotAuthentic
                | Some plaintext \<Rightarrow> Inr plaintext)))"

subsection \<open>Encrypt and Decrypt\<close>

definition MiB :: nat where
  "MiB = 1048576"

definition KiB :: nat where
  "KiB = 1024"

definition Encrypt :: "KeyEngine \<Rightarrow> SealInput \<Rightarrow> string \<Rightarrow> byte list \<Rightarrow> byte list \<Rightarrow> kind + string" where
  "Encrypt E inp name plaintext context =
     (if \<not> valid_name E name then Inl Invalid
      else if MiB < length plaintext \<or> MiB < length context then Inl Invalid
      else case store_Get E name of
        Inl err \<Rightarrow> Inl err
      | Inr key \<Rightarrow> Inr (Seal_envelope E inp key plaintext context))"

definition Decrypt :: "KeyEngine \<Rightarrow> string \<Rightarrow> string \<Rightarrow> byte list \<Rightarrow> kind + byte list" where
  "Decrypt E name ciphertext context =
     (if \<not> valid_name E name then Inl Invalid
      else if MiB < length context then Inl Invalid
      else case store_Get E name of
        Inl err \<Rightarrow> Inl err
      | Inr key \<Rightarrow> Open_envelope E key ciphertext context)"

text \<open>
  An engine for the examples: every name is valid, the store holds the key \<open>t\<close>, the key
  derivation appends the IV to the key, and the AEAD writes the associated data in front of
  the plaintext and, when opening, checks that the associated data is there.
\<close>

definition example_engine :: KeyEngine where
  "example_engine =
     \<lparr>valid_name = (\<lambda>s. True),
      store_Get = (\<lambda>s. if s = ''t'' then Inr [1, 2, 3] else Inl NotFound),
      HKDF_SHA256 = (\<lambda>k salt info. k @ salt),
      AEAD_Seal = (\<lambda>alg k n p ad. ad @ p),
      AEAD_Open = (\<lambda>alg k n c ad.
        if take (length ad) c = ad then Some (drop (length ad) c) else None)\<rparr>"

definition example_input :: SealInput where
  "example_input =
     \<lparr>hardware_AES = True, FIPS_mode = False, random_iv = [9, 8], random_nonce = [7]\<rparr>"

section \<open>Properties of the stateless vault\<close>

lemma call_unchanged: "call v c = v"
  by (cases c) (simp_all add: Seal_def Unseal_def Operator_def CreateEnclave_def
      GetEnclave_def DeleteEnclave_def)

lemma calls_unchanged: "calls v cs = v"
  unfolding calls_def by (induction cs) (simp_all add: call_unchanged)

text \<open>
  C3. On the stateless vault built by \<open>NewStatelessVault\<close>, after any history of calls,
  \<open>GetEnclave\<close> returns the enclave made of the constructor's key store, policy set and
  identity set when the name is empty, and fails with \<open>ErrEnclaveNotFound\<close> for every
  other name.
\<close>

theorem GetEnclave_default:
  "fst (GetEnclave (calls (NewStatelessVault op ks ps ids) cs) name) =
     (if name = '''' then Inr \<lparr>keys = ks, policies = ps, identities = ids\<rparr>
      else Inl ErrEnclaveNotFound)"
  by (simp add: calls_unchanged GetEnclave_def NewStatelessVault_def)

theorem GetEnclave_default_witness:
  "fst (GetEnclave (calls (NewStatelessVault ''op'' (1::nat) (2::nat) (3::nat))
          [CallSeal, CallCreateEnclave ''a'']) '''') =
     Inr \<lparr>keys = 1, policies = 2, identities = 3\<rparr> \<and>
   fst (GetEnclave (calls (NewStatelessVault ''op'' (1::nat) (2::nat) (3::nat))
          [CallSeal, CallCreateEnclave ''a'']) ''a'') = Inl ErrEnclaveNotFound"
  using GetEnclave_default [of "''op''" "1::nat" "2::nat" "3::nat"
      "[CallSeal, CallCreateEnclave ''a'']" "''''"]
    GetEnclave_default [of "''op''" "1::nat" "2::nat" "3::nat"
      "[CallSeal, CallCreateEnclave ''a'']" "''a''"]
  by simp

text \<open>
  C8. On the stateless vault, \<open>CreateEnclave\<close> and \<open>DeleteEnclave\<close> fail for every
  name with an error of status 501 (Not Implemented), and the vault after the call, with its
  enclave and its operator, is the vault before the call.
\<close>

theorem CreateEnclave_DeleteEnclave_not_implemented:
  "fst (CreateEnclave v name) = Inl (NewError 501 ''creating encalves is not supported'') \<and>
   fst (DeleteEnclave v name) = Some (NewError 501 ''deleting encalves is not supported'') \<and>
   snd (CreateEnclave v name) = v \<and> snd (DeleteEnclave v name) = v \<and>
   enclave (snd (CreateEnclave v name)) = enclave v \<and>
   operator (snd (CreateEnclave v name)) = operator v \<and>
   enclave (snd (DeleteEnclave v name)) = enclave v \<and>
   operator (snd (DeleteEnclave v name)) = operator v"
  by (simp add: CreateEnclave_def DeleteEnclave_def StatusNotImplemented_def)

text \<open>
  C2, as stated, fails on the stateless vault: \<open>Seal\<close> succeeds, the vault after it is the
  vault before it, and a lookup of the default enclave on the vault after \<open>Seal\<close> succeeds
  instead of failing with an error.
\<close>

theorem Seal_does_not_seal:
  "fst (Seal (NewStatelessVault ''op'' (1::nat) (2::nat) (3::nat))) = None \<and>
   snd (Seal (NewStatelessVault ''op'' (1::nat) (2::nat) (3::nat))) =
     NewStatelessVault ''op'' 1 2 3 \<and>
   fst (GetEnclave (snd (Seal (NewStatelessVault ''op'' (1::nat) (2::nat) (3::nat)))) '''') =
     Inr \<lparr>keys = 1, policies = 2, identities = 3\<rparr>"
  by (simp add: Seal_def GetEnclave_def NewStatelessVault_def)

text \<open>
  C2, amended. The stateless vault has no sealed state: \<open>Seal\<close> and \<open>Unseal\<close> always
  succeed and leave the vault as it was, and after every history of calls (among them any
  number of \<open>Seal\<close> and \<open>Unseal\<close> calls, or none) the lookup of the default enclave
  succeeds.
\<close>

theorem Seal_Unseal_no_effect:
  "Seal v = (None, v) \<and> Unseal v = (None, v) \<and>
   (\<forall>cs. fst (GetEnclave (calls v cs) '''') = Inr (enclave v))"
  by (simp add: Seal_def Unseal_def calls_unchanged GetEnclave_def)

section \<open>Properties of the identity computation\<close>

lemma nibble_values: "n < 16 \<Longrightarrow> n \<in> set [0, 1, 2, 3, 4, 5, 6, 7, 8, 9, 10, 11, 12, 13, 14, 15::nat]"
  by (simp only: set_simps insert_iff empty_iff) arith

lemma hex_digit_hextable: "n < 16 \<Longrightarrow> hex_digit n = hextable ! n"
  by (drule nibble_values) (auto simp add: hextable_def hex_digit_def char_of_eq_iff)

lemma hex_digit_in_hextable: "n < 16 \<Longrightarrow> hex_digit n \<in> set hextable"
  by (drule nibble_values) (auto simp add: hextable_def hex_digit_def char_of_eq_iff)

lemma unat_high_nibble: "unat (drop_bit 4 (v::byte)) = unat v div 16"
  by (simp add: unat_drop_bit_eq drop_bit_eq_div unat_div)

lemma unat_low_nibble: "unat ((v::byte) AND 0x0f) = unat v mod 16"
proof -
  have "v AND 0x0f = take_bit 4 v"
    by (simp add: take_bit_eq_mask mask_eq_exp_minus_1)
  then show ?thesis
    by (simp add: unsigned_take_bit_eq take_bit_eq_mod unat_mod)
qed

lemma byte_div_16: "unat (v::byte) div 16 < 16"
proof -
  have "unat v < 256" using unsigned_less [of v] by simp
  then show ?thesis by arith
qed

lemma EncodeToString_lowercase_hex: "EncodeToString src = lowercase_hex src"
  by (induction src)
    (simp_all add: unat_high_nibble unat_low_nibble hex_digit_hextable byte_div_16)

lemma lowercase_hex_chars: "set (lowercase_hex src) \<subseteq> set hextable"
  by (induction src) (simp_all add: hex_digit_in_hextable byte_div_16)

lemma lowercase_hex_length: "length (lowercase_hex src) = 2 * length src"
  by (induction src) simp_all

text \<open>
  C4. When the file read by \<open>identify\<close> holds a certificate (the file reads, filters,
  decodes and parses to \<open>cert\<close>), the identity returned is the SHA-256 of the certificate's
  raw SubjectPublicKeyInfo rendered as a lowercase hex string: two characters per byte of
  the digest, all of them among \<open>0123456789abcdef\<close>. \<open>newIdentityCmd\<close> prints the same
  string for the same certificate when its standard output is a terminal, and prints no
  identity when it is not. Consequently a second file whose certificate has the same
  SubjectPublicKeyInfo gets the same identity.
\<close>

theorem identify_hex_sha256:
  assumes "ReadFile env f = Inr raw"
    and "FilterPEM env raw (\<lambda>b. Type b = ''CERTIFICATE'') = Inr pemBlock"
    and "pem_Decode env pemBlock = Some next"
    and "ParseCertificate env (Bytes next) = Inr cert"
  shows "identify env f = Inr (lowercase_hex (Sum256 env (RawSubjectPublicKeyInfo cert))) \<and>
    newIdentityCmd_identity env isTerm_Stdout (Bytes next) =
      (if isTerm_Stdout then Some (lowercase_hex (Sum256 env (RawSubjectPublicKeyInfo cert)))
       else None) \<and>
    set (lowercase_hex (Sum256 env (RawSubjectPublicKeyInfo cert))) \<subseteq> set ''0123456789abcdef'' \<and>
    length (lowercase_hex (Sum256 env (RawSubjectPublicKeyInfo cert))) =
      2 * length (Sum256 env (RawSubjectPublicKeyInfo cert)) \<and>
    (\<forall>f' raw' pemBlock' next' cert'.
       ReadFile env f' = Inr raw' \<and>
       FilterPEM env raw' (\<lambda>b. Type b = ''CERTIFICATE'') = Inr pemBlock' \<and>
       pem_Decode env pemBlock' = Some next' \<and>
       ParseCertificate env (Bytes next') = Inr cert' \<and>
       RawSubjectPublicKeyInfo cert' = RawSubjectPublicKeyInfo cert \<longrightarrow>
       identify env f' = identify env f)"
proof -
  have a: "identify env f = Inr (lowercase_hex (Sum256 env (RawSubjectPublicKeyInfo cert)))"
    using assms by (simp add: identify_def EncodeToString_lowercase_hex)
  have b: "newIdentityCmd_identity env isTerm_Stdout (Bytes next) =
      (if isTerm_Stdout then Some (lowercase_hex (Sum256 env (RawSubjectPublicKeyInfo cert)))
       else None)"
    using assms by (simp add: newIdentityCmd_identity_def EncodeToString_lowercase_hex)
  have c: "set (lowercase_hex (Sum256 env (RawSubjectPublicKeyInfo cert)))
      \<subseteq> set ''0123456789abcdef''"
    using lowercase_hex_chars [of "Sum256 env (RawSubjectPublicKeyInfo cert)"]
    by (simp only: hextable_def)
  have d: "\<forall>f' raw' pemBlock' next' cert'.
       ReadFile env f' = Inr raw' \<and>
       FilterPEM env raw' (\<lambda>b. Type b = ''CERTIFICATE'') = Inr pemBlock' \<and>
       pem_Decode env pemBlock' = Some next' \<and>
       ParseCertificate env (Bytes next') = Inr cert' \<and>
       RawSubjectPublicKeyInfo cert' = RawSubjectPublicKeyInfo cert \<longrightarrow>
       identify env f' = identify env f"
    using a by (simp add: identify_def EncodeToString_lowercase_hex)
  from a b c d show ?thesis
    by (simp only: lowercase_hex_length simp_thms)
qed

theorem identify_hex_sha256_witness:
  "identify
     \<lparr>ReadFile = (\<lambda>f. Inr [1, 2, 3]), FilterPEM = (\<lambda>b p. Inr b),
      pem_Decode = (\<lambda>b. Some \<lparr>Type = ''CERTIFICATE'', Bytes = b\<rparr>),
      ParseCertificate = (\<lambda>b. Inr \<lparr>RawSubjectPublicKeyInfo = b\<rparr>),
      Sum256 = (\<lambda>b. [0xab, 0x01])\<rparr> ''client.crt'' = Inr ''ab01''"
proof -
  let ?env = "\<lparr>ReadFile = (\<lambda>f. Inr [1, 2, 3]), FilterPEM = (\<lambda>b p. Inr b),
      pem_Decode = (\<lambda>b. Some \<lparr>Type = ''CERTIFICATE'', Bytes = b\<rparr>),
      ParseCertificate = (\<lambda>b. Inr \<lparr>RawSubjectPublicKeyInfo = b\<rparr>),
      Sum256 = (\<lambda>b. [0xab, 0x01])\<rparr>"
  have h1: "ReadFile ?env ''client.crt'' = Inr [1, 2, 3]" by simp
  have h2: "FilterPEM ?env [1, 2, 3] (\<lambda>b. Type b = ''CERTIFICATE'') = Inr [1, 2, 3]" by simp
  have h3: "pem_Decode ?env [1, 2, 3] = Some \<lparr>Type = ''CERTIFICATE'', Bytes = [1, 2, 3]\<rparr>"
    by simp
  have h4: "ParseCertificate ?env (Bytes \<lparr>Type = ''CERTIFICATE'', Bytes = [1, 2, 3]\<rparr>) =
      Inr \<lparr>RawSubjectPublicKeyInfo = [1, 2, 3]\<rparr>" by simp
  have "identify ?env ''client.crt'' =
      Inr (lowercase_hex (Sum256 ?env (RawSubjectPublicKeyInfo \<lparr>RawSubjectPublicKeyInfo = [1, 2, 3]\<rparr>)))"
    using identify_hex_sha256 [OF h1 h2 h3 h4] by (rule conjunct1)
  moreover have "lowercase_hex [0xab, 0x01] = ''ab01''"
    by (simp add: hex_digit_def char_of_eq_iff)
  ultimately show ?thesis by simp
qed

section \<open>Properties of the identity API handlers\<close>

subsection \<open>The lines of a listing\<close>








text \<open>
  C6 at a concrete input: the iterator yields \<open>a\<close>, which matches, and the lookup of
  \<open>a\<close> fails before any record has been written. The handler writes the error as a
  record of the stream (\<open>Encode\<close>) and makes no call of \<^verbatim>\<open>Error(w, err)\<close>.
\<close>

theorem listIdentity_first_lookup_error_in_band:
  "listIdentity (example_env (example_enclave no_lookup no_lookup [''a'']))
     (example_request ''GET'' ''/v1/identity/list/*'' []) =
   [Audit,
    Call_lookupEnclave
      ((example_request ''GET'' ''/v1/identity/list/*'' [])\<lparr>Body := MaxBytesReader (Reader []) 0\<rparr>),
    Call_VerifyRequest
      ((example_request ''GET'' ''/v1/identity/list/*'' [])\<lparr>Body := MaxBytesReader (Reader []) 0\<rparr>),
    Call_ListIdentities, Call_Next, Call_GetIdentity ''a'',
    Encode (ListResponse [] False [] 0 [] ''backend unreachable'')]"
  by (simp add: listIdentity_def example_env_def example_enclave_def example_request_def
      MethodGet_def TrimPrefix_def no_lookup_def encode_def unreachable_def)

text \<open>
  C9 at two concrete inputs. In the first the iterator yields \<open>a\<close> and \<open>b\<close>, the record
  of \<open>a\<close> is written and the lookup of \<open>b\<close> fails; in the second the write of the record
  of \<open>a\<close> fails. In both the handler returns with \<open>b\<close> not yet consumed, and without a call
  of \<^verbatim>\<open>iterator.Close()\<close>.
\<close>

theorem listIdentity_returns_without_Close:
  "listIdentity
     (example_env (example_enclave (lookup_in [(''a'', example_info)]) no_lookup [''a'', ''b'']))
     (example_request ''GET'' ''/v1/identity/list/*'' []) =
   [Audit,
    Call_lookupEnclave
      ((example_request ''GET'' ''/v1/identity/list/*'' [])\<lparr>Body := MaxBytesReader (Reader []) 0\<rparr>),
    Call_VerifyRequest
      ((example_request ''GET'' ''/v1/identity/list/*'' [])\<lparr>Body := MaxBytesReader (Reader []) 0\<rparr>),
    Call_ListIdentities, Call_Next,
    Call_GetIdentity ''a'', SetHeader ''Content-Type'' ''application/x-ndjson'',
    Encode (ListResponse ''a'' False ''p'' 7 ''root'' []), Call_Next,
    Call_GetIdentity ''b'', Encode (ListResponse [] False [] 0 [] ''not found'')] \<and>
   listIdentity
     ((example_env (example_enclave (lookup_in [(''a'', example_info)]) no_lookup [''a'', ''b'']))
        \<lparr>EncodeError := fails_from 0\<rparr>)
     (example_request ''GET'' ''/v1/identity/list/*'' []) =
   [Audit,
    Call_lookupEnclave
      ((example_request ''GET'' ''/v1/identity/list/*'' [])\<lparr>Body := MaxBytesReader (Reader []) 0\<rparr>),
    Call_VerifyRequest
      ((example_request ''GET'' ''/v1/identity/list/*'' [])\<lparr>Body := MaxBytesReader (Reader []) 0\<rparr>),
    Call_ListIdentities, Call_Next,
    Call_GetIdentity ''a'', SetHeader ''Content-Type'' ''application/x-ndjson'',
    EncodeFailed (ListResponse ''a'' False ''p'' 7 ''root'' []) (NewError 500 ''broken pipe'')]"
  by (simp add: listIdentity_def example_env_def example_enclave_def example_request_def
      MethodGet_def TrimPrefix_def lookup_in_def encode_def example_info_def fails_from_def
      not_found_def)

subsection \<open>The request body\<close>




















subsection \<open>Describing the caller\<close>

text \<open>
  C10, as stated, fails. The caller is in the identity set, is not the admin and is
  assigned the policy \<open>p\<close>, which the policy set does not hold. The handler answers with
  the error of the policy lookup; the caller does not receive its identity information.
\<close>

theorem selfDescribeIdentity_missing_policy:
  "selfDescribeIdentity
     (example_env (example_enclave (lookup_in [(''caller'', example_info)]) (lookup_in []) []))
     (example_request ''GET'' ''/v1/identity/self/describe'' []) =
   [Audit,
    Call_lookupEnclave
      ((example_request ''GET'' ''/v1/identity/self/describe'' [])
         \<lparr>Body := MaxBytesReader (Reader []) 0\<rparr>),
    Call_GetIdentity ''caller'', Call_GetPolicy ''p'', ErrorResponse not_found]"
  by (simp add: selfDescribeIdentity_def example_env_def example_enclave_def
      example_request_def MethodGet_def lookup_in_def example_info_def)

text \<open>
  C10, amended. The handler never calls \<open>VerifyRequest\<close>. For a GET request with the
  canonical path whose enclave is found and whose caller is in the identity set: when the
  caller is the admin, the handler encodes the caller's identity information with an
  inline policy whose Allow and Deny lists are empty, and makes no policy lookup; when the
  caller is not the admin and the policy assigned to it is found, the handler encodes the
  caller's identity information with that policy's Allow and Deny lists, whatever they
  are; when the assigned policy is not found, the handler answers with the error of the
  policy lookup.
\<close>

theorem selfDescribeIdentity_no_policy_check:
  "(\<forall>q. Call_VerifyRequest q \<notin> set (selfDescribeIdentity env r)) \<and>
   (Method r = MethodGet \<and>
    normalizeURL env (URLPath r) ''/v1/identity/self/describe'' = Inr p \<and>
    lookupEnclave env (r\<lparr>URLPath := p, Body := MaxBytesReader (Body r) 0\<rparr>) = Inr e \<and>
    GetIdentity e (Identify env (r\<lparr>URLPath := p, Body := MaxBytesReader (Body r) 0\<rparr>)) =
      Inr info \<longrightarrow>
    (IsAdmin info \<longrightarrow>
       selfDescribeIdentity env r =
         [Audit, Call_lookupEnclave (r\<lparr>URLPath := p, Body := MaxBytesReader (Body r) 0\<rparr>),
          Call_GetIdentity (Identify env (r\<lparr>URLPath := p, Body := MaxBytesReader (Body r) 0\<rparr>)),
          encode env 0
            (SelfDescribeResponse
               (Identify env (r\<lparr>URLPath := p, Body := MaxBytesReader (Body r) 0\<rparr>))
               True (Policy info) (CreatedAt info) (CreatedBy info) [] [])]) \<and>
    (\<not> IsAdmin info \<longrightarrow>
       (\<forall>pol. GetPolicy e (Policy info) = Inr pol \<longrightarrow>
          selfDescribeIdentity env r =
            [Audit, Call_lookupEnclave (r\<lparr>URLPath := p, Body := MaxBytesReader (Body r) 0\<rparr>),
             Call_GetIdentity (Identify env (r\<lparr>URLPath := p, Body := MaxBytesReader (Body r) 0\<rparr>)),
             Call_GetPolicy (Policy info),
             encode env 0
               (SelfDescribeResponse
                  (Identify env (r\<lparr>URLPath := p, Body := MaxBytesReader (Body r) 0\<rparr>))
                  False (Policy info) (CreatedAt info) (CreatedBy info)
                  (Allow pol) (Deny pol))]) \<and>
       (\<forall>err. GetPolicy e (Policy info) = Inl err \<longrightarrow>
          selfDescribeIdentity env r =
            [Audit, Call_lookupEnclave (r\<lparr>URLPath := p, Body := MaxBytesReader (Body r) 0\<rparr>),
             Call_GetIdentity (Identify env (r\<lparr>URLPath := p, Body := MaxBytesReader (Body r) 0\<rparr>)),
             Call_GetPolicy (Policy info), ErrorResponse err])))"
proof -
  have a: "\<forall>q. Call_VerifyRequest q \<notin> set (selfDescribeIdentity env r)"
    by (simp add: selfDescribeIdentity_def encode_def split: sum.splits option.splits)
  show ?thesis
    by (rule conjI [OF a]) (simp add: selfDescribeIdentity_def)
qed

theorem selfDescribeIdentity_no_policy_check_witness:
  "selfDescribeIdentity
     (example_env (example_enclave
        (lookup_in [(''caller'', example_info\<lparr>IsAdmin := True\<rparr>)]) (lookup_in []) []))
     (example_request ''GET'' ''/v1/identity/self/describe'' []) =
   [Audit,
    Call_lookupEnclave
      ((example_request ''GET'' ''/v1/identity/self/describe'' [])
         \<lparr>Body := MaxBytesReader (Reader []) 0\<rparr>),
    Call_GetIdentity ''caller'',
    Encode (SelfDescribeResponse ''caller'' True ''p'' 7 ''root'' [] [])]"
proof -
  let ?e = "example_enclave
        (lookup_in [(''caller'', example_info\<lparr>IsAdmin := True\<rparr>)]) (lookup_in []) []"
  let ?env = "example_env ?e"
  let ?r = "example_request ''GET'' ''/v1/identity/self/describe'' []"
  let ?r' = "?r\<lparr>URLPath := ''/v1/identity/self/describe'', Body := MaxBytesReader (Body ?r) 0\<rparr>"
  have h: "Method ?r = MethodGet \<and>
    normalizeURL ?env (URLPath ?r) ''/v1/identity/self/describe'' =
      Inr ''/v1/identity/self/describe'' \<and>
    lookupEnclave ?env ?r' = Inr ?e \<and>
    GetIdentity ?e (Identify ?env ?r') = Inr (example_info\<lparr>IsAdmin := True\<rparr>)"
    by (simp add: example_env_def example_enclave_def example_request_def MethodGet_def
        lookup_in_def)
  have adm: "IsAdmin (example_info\<lparr>IsAdmin := True\<rparr>)" by simp
  have "selfDescribeIdentity ?env ?r =
         [Audit, Call_lookupEnclave ?r', Call_GetIdentity (Identify ?env ?r'),
          encode ?env 0
            (SelfDescribeResponse (Identify ?env ?r')
               True (Policy (example_info\<lparr>IsAdmin := True\<rparr>))
               (CreatedAt (example_info\<lparr>IsAdmin := True\<rparr>))
               (CreatedBy (example_info\<lparr>IsAdmin := True\<rparr>)) [] [])]"
    using selfDescribeIdentity_no_policy_check
      [of ?env ?r "''/v1/identity/self/describe''" ?e "example_info\<lparr>IsAdmin := True\<rparr>"]
      h adm by blast
  then show ?thesis
    by (simp add: example_env_def encode_def example_info_def example_request_def)
qed

section \<open>Properties of the key engine\<close>

subsection \<open>Base64\<close>

lemma index_of_nth: "distinct xs \<Longrightarrow> n < length xs \<Longrightarrow> index_of (xs ! n) xs = Some n"
proof (induction xs arbitrary: n)
  case Nil
  then show ?case by simp
next
  case (Cons y ys)
  show ?case
  proof (cases n)
    case 0
    then show ?thesis by simp
  next
    case (Suc m)
    with Cons.prems have "m < length ys" and "ys ! m \<noteq> y" and "distinct ys"
      by auto
    with Suc Cons.IH [of m] show ?thesis by simp
  qed
qed

lemma distinct_base64_table: "distinct base64_table"
  by (simp add: base64_table_def)

lemma length_base64_table: "length base64_table = 64"
  by (simp add: base64_table_def)

lemma base64_value_char: "n < 64 \<Longrightarrow> base64_value (base64_char n) = Some n"
  by (simp add: base64_value_def base64_char_def index_of_nth distinct_base64_table
      length_base64_table)

lemma base64_char_in_table: "n < 64 \<Longrightarrow> base64_char n \<in> set base64_table"
  by (simp add: base64_char_def length_base64_table)

lemma base64_char_not_pad: "n < 64 \<Longrightarrow> base64_char n \<noteq> CHR ''=''"
proof
  assume "n < 64" and "base64_char n = CHR ''=''"
  then have "CHR ''='' \<in> set base64_table"
    using base64_char_in_table [of n] by simp
  then show False by (simp add: base64_table_def)
qed

lemma base64_char_not_quote: "n < 64 \<Longrightarrow> base64_char n \<noteq> CHR 0x22"
proof
  assume "n < 64" and "base64_char n = CHR 0x22"
  then have "CHR 0x22 \<in> set base64_table"
    using base64_char_in_table [of n] by simp
  then show False by (simp add: base64_table_def)
qed

lemma byte_less_256: "unat (a::byte) < 256"
  using unsigned_less [of a] by simp

lemma sextets_bounds:
  fixes a b c :: nat
  assumes "a < 256" "b < 256" "c < 256"
  shows "a div 4 < 64" "a mod 4 * 16 + b div 16 < 64" "b mod 16 * 4 + c div 64 < 64"
    "c mod 64 < 64" "a mod 4 * 16 < 64" "b mod 16 * 4 < 64"
  using assms by arith+

lemma sextets_high:
  fixes a b :: nat
  assumes "b < 256"
  shows "a div 4 * 4 + (a mod 4 * 16 + b div 16) div 16 = a"
proof -
  from assms have "b div 16 < 16" by arith
  then have "(a mod 4 * 16 + b div 16) div 16 = a mod 4" by simp
  then show ?thesis by simp
qed

lemma sextets_mid:
  fixes a b c :: nat
  assumes "b < 256" "c < 256"
  shows "(a mod 4 * 16 + b div 16) mod 16 * 16 + (b mod 16 * 4 + c div 64) div 4 = b"
proof -
  from assms have 1: "b div 16 < 16" and 2: "c div 64 < 4" by arith+
  from 1 have "(a mod 4 * 16 + b div 16) mod 16 = b div 16" by simp
  moreover from 2 have "(b mod 16 * 4 + c div 64) div 4 = b mod 16" by simp
  ultimately show ?thesis by simp
qed

lemma sextets_low:
  fixes b c :: nat
  assumes "c < 256"
  shows "(b mod 16 * 4 + c div 64) mod 4 * 64 + c mod 64 = c"
proof -
  from assms have "c div 64 < 4" by arith
  then have "(b mod 16 * 4 + c div 64) mod 4 = c div 64" by simp
  then show ?thesis by simp
qed

lemma sextets_pad:
  fixes a b :: nat
  assumes "b < 256"
  shows "a div 4 * 4 + (a mod 4 * 16) div 16 = a"
    and "(a mod 4 * 16 + b div 16) mod 16 * 16 + (b mod 16 * 4) div 4 = b"
proof -
  show "a div 4 * 4 + (a mod 4 * 16) div 16 = a" by simp
  from assms have "b div 16 < 16" by arith
  then have "(a mod 4 * 16 + b div 16) mod 16 = b div 16" by simp
  then show "(a mod 4 * 16 + b div 16) mod 16 * 16 + (b mod 16 * 4) div 4 = b" by simp
qed

lemma sextets:
  fixes a b c :: nat
  assumes "a < 256" "b < 256" "c < 256"
  shows "a div 4 < 64" "a mod 4 * 16 + b div 16 < 64" "b mod 16 * 4 + c div 64 < 64"
    "c mod 64 < 64" "a mod 4 * 16 < 64" "b mod 16 * 4 < 64"
    "a div 4 * 4 + (a mod 4 * 16 + b div 16) div 16 = a"
    "(a mod 4 * 16 + b div 16) mod 16 * 16 + (b mod 16 * 4 + c div 64) div 4 = b"
    "(b mod 16 * 4 + c div 64) mod 4 * 64 + c mod 64 = c"
    "a div 4 * 4 + (a mod 4 * 16) div 16 = a"
    "(a mod 4 * 16 + b div 16) mod 16 * 16 + (b mod 16 * 4) div 4 = b"
  using sextets_bounds [OF assms] sextets_high [OF assms(2)] sextets_mid [OF assms(2,3)]
    sextets_low [OF assms(3)] sextets_pad [OF assms(2)]
  by blast+

lemma byte_of_sextets:
  fixes a b c :: byte
  shows "of_nat (unat a div 4 * 4 + (unat a mod 4 * 16 + unat b div 16) div 16) = a"
    and "of_nat ((unat a mod 4 * 16 + unat b div 16) mod 16 * 16 +
           (unat b mod 16 * 4 + unat c div 64) div 4) = b"
    and "of_nat ((unat b mod 16 * 4 + unat c div 64) mod 4 * 64 + unat c mod 64) = c"
    and "of_nat (unat a div 4 * 4 + (unat a mod 4 * 16) div 16) = a"
    and "of_nat ((unat a mod 4 * 16 + unat b div 16) mod 16 * 16 + (unat b mod 16 * 4) div 4) = b"
  by (simp_all only: sextets [OF byte_less_256 byte_less_256 byte_less_256] of_nat_unat ucast_id)

lemma decode_group:
  assumes "x0 < 64" "x1 < 64" "x2 < 64" "x3 < 64" "base64_decode s = Some bs"
  shows "base64_decode (base64_char x0 # base64_char x1 # base64_char x2 # base64_char x3 # s) =
     Some (of_nat (x0 * 4 + x1 div 16) # of_nat (x1 mod 16 * 16 + x2 div 4) #
           of_nat (x2 mod 4 * 64 + x3) # bs)"
  using assms by (simp add: base64_value_char base64_char_not_pad)

lemma decode_pad1:
  assumes "x0 < 64" "x1 < 64" "x2 < 64"
  shows "base64_decode [base64_char x0, base64_char x1, base64_char x2, CHR ''=''] =
     Some [of_nat (x0 * 4 + x1 div 16), of_nat (x1 mod 16 * 16 + x2 div 4)]"
  using assms by (simp add: base64_value_char base64_char_not_pad)

lemma decode_pad2:
  assumes "x0 < 64" "x1 < 64"
  shows "base64_decode [base64_char x0, base64_char x1, CHR ''='', CHR ''=''] =
     Some [of_nat (x0 * 4 + x1 div 16)]"
  using assms by (simp add: base64_value_char)

lemma base64_decode_encode: "base64_decode (base64_encode src) = Some src"
proof (induction src rule: base64_encode.induct)
  case 1
  show ?case by simp
next
  case (2 a)
  note s = sextets [OF byte_less_256 [of a] byte_less_256 [of a] byte_less_256 [of a]]
  show ?case
    by (simp only: base64_encode.simps decode_pad2 [OF s(1) s(5)] byte_of_sextets)
next
  case (3 a b)
  note s = sextets [OF byte_less_256 [of a] byte_less_256 [of b] byte_less_256 [of b]]
  show ?case
    by (simp only: base64_encode.simps decode_pad1 [OF s(1) s(2) s(6)] byte_of_sextets)
next
  case (4 a b c src)
  note s = sextets [OF byte_less_256 [of a] byte_less_256 [of b] byte_less_256 [of c]]
  show ?case
    by (simp only: base64_encode.simps decode_group [OF s(1) s(2) s(3) s(4) "4.IH"]
        byte_of_sextets)
qed

lemma base64_encode_no_quote: "CHR 0x22 \<notin> set (base64_encode src)"
proof (induction src rule: base64_encode.induct)
  case 1
  show ?case by simp
next
  case (2 a)
  note s = sextets [OF byte_less_256 [of a] byte_less_256 [of a] byte_less_256 [of a]]
  show ?case
    using base64_char_not_quote [OF s(1)] base64_char_not_quote [OF s(5)]
    by (auto simp only: base64_encode.simps set_simps insert_iff empty_iff char.inject)
next
  case (3 a b)
  note s = sextets [OF byte_less_256 [of a] byte_less_256 [of b] byte_less_256 [of b]]
  show ?case
    using base64_char_not_quote [OF s(1)] base64_char_not_quote [OF s(2)]
      base64_char_not_quote [OF s(6)]
    by (auto simp only: base64_encode.simps set_simps insert_iff empty_iff char.inject)
next
  case (4 a b c src)
  note s = sextets [OF byte_less_256 [of a] byte_less_256 [of b] byte_less_256 [of c]]
  show ?case
    using base64_char_not_quote [OF s(1)] base64_char_not_quote [OF s(2)]
      base64_char_not_quote [OF s(3)] base64_char_not_quote [OF s(4)] "4.IH"
    by (auto simp only: base64_encode.simps set_simps insert_iff)
qed

subsection \<open>The envelope codec\<close>

lemma quoted_append:
  "CHR 0x22 \<notin> set x \<Longrightarrow> quoted (x @ CHR 0x22 # s) = (x, CHR 0x22 # s)"
  by (induction x) (auto simp add: quoted_def)

lemma algorithm_id_no_quote: "CHR 0x22 \<notin> set (algorithm_id a)"
  by (cases a) (simp_all add: algorithm_id_def)

lemma algorithm_of_id: "algorithm_of (algorithm_id a) = Some a"
  by (cases a) (simp_all add: algorithm_id_def algorithm_of_def)

lemma parse_encode_envelope:
  "parse_envelope (encode_envelope e) = Some (algorithm_id (aead e), iv e, nonce e, bytes e)"
proof -
  have 1: "expect ''{ \"aead\": \"'' (encode_envelope e) =
      Some (algorithm_id (aead e) @ CHR 0x22 # '', \"iv\": \"'' @ base64_encode (iv e) @
        CHR 0x22 # '', \"nonce\": \"'' @ base64_encode (nonce e) @
        CHR 0x22 # '', \"bytes\": \"'' @ base64_encode (bytes e) @ ''\" }'')"
    by (simp add: expect_def encode_envelope_def)
  have 2: "expect ''\", \"iv\": \"'' (CHR 0x22 # '', \"iv\": \"'' @ s) = Some s" for s
    by (simp add: expect_def)
  have 3: "expect ''\", \"nonce\": \"'' (CHR 0x22 # '', \"nonce\": \"'' @ s) = Some s" for s
    by (simp add: expect_def)
  have 4: "expect ''\", \"bytes\": \"'' (CHR 0x22 # '', \"bytes\": \"'' @ s) = Some s" for s
    by (simp add: expect_def)
  have 5: "quoted (base64_encode x @ ''\" }'') = (base64_encode x, ''\" }'')" for x
    using quoted_append [OF base64_encode_no_quote, of x "'' }''"] by simp
  show ?thesis
    unfolding parse_envelope_def 1
    by (simp only: option.case quoted_append algorithm_id_no_quote base64_encode_no_quote
        not_False_eq_True fst_conv snd_conv 2 3 4 5 base64_decode_encode prod.case
        simp_thms if_False)
qed

subsection \<open>Round trip\<close>

lemma Open_Seal_envelope:
  assumes "\<forall>alg k n p ad. AEAD_Open E alg k n (AEAD_Seal E alg k n p ad) ad = Some p"
  shows "Open_envelope E key (Seal_envelope E inp key plaintext context) context = Inr plaintext"
  using assms
  by (simp add: Open_envelope_def Seal_envelope_def parse_encode_envelope algorithm_of_id)

text \<open>
  C1. Given an AEAD that opens what it has sealed (under the same key, nonce and
  associated data), for every key name, plaintext and context: when \<open>Encrypt\<close> returns a
  ciphertext, \<open>Decrypt\<close> with the same key name and the same context returns exactly the
  plaintext. \<open>Encrypt\<close> does return a ciphertext when the name is valid, the store holds a
  key under it, the plaintext is within the bound of 1 MiB and the context within the bound
  of 512 KiB.
\<close>

theorem Decrypt_Encrypt:
  assumes "\<forall>alg k n p ad. AEAD_Open E alg k n (AEAD_Seal E alg k n p ad) ad = Some p"
  shows "(\<forall>ciphertext. Encrypt E inp name plaintext context = Inr ciphertext \<longrightarrow>
            Decrypt E name ciphertext context = Inr plaintext) \<and>
         (valid_name E name \<and> (\<exists>key. store_Get E name = Inr key) \<and>
          length plaintext \<le> MiB \<and> length context \<le> 512 * KiB \<longrightarrow>
            (\<exists>ciphertext. Encrypt E inp name plaintext context = Inr ciphertext))"
proof -
  have a: "Decrypt E name ciphertext context = Inr plaintext"
    if "Encrypt E inp name plaintext context = Inr ciphertext" for ciphertext
    using that Open_Seal_envelope [OF assms]
    by (auto simp add: Encrypt_def Decrypt_def split: if_splits sum.splits)
  have b: "\<exists>ciphertext. Encrypt E inp name plaintext context = Inr ciphertext"
    if "valid_name E name" "store_Get E name = Inr key" "length plaintext \<le> MiB"
      "length context \<le> 512 * KiB" for key
    using that by (simp add: Encrypt_def MiB_def KiB_def)
  from a b show ?thesis by blast
qed

theorem Decrypt_Encrypt_witness:
  "Decrypt example_engine ''t''
     (projr (Encrypt example_engine example_input ''t'' [72, 105] [99])) [99] = Inr [72, 105]"
proof -
  have h: "\<forall>alg k n p ad.
      AEAD_Open example_engine alg k n (AEAD_Seal example_engine alg k n p ad) ad = Some p"
    by (simp add: example_engine_def)
  have e: "\<exists>ciphertext.
      Encrypt example_engine example_input ''t'' [72, 105] [99] = Inr ciphertext"
    using Decrypt_Encrypt [OF h, of example_input "''t''" "[72, 105]" "[99]"]
    by (simp add: example_engine_def MiB_def KiB_def)
  then obtain ct where ct: "Encrypt example_engine example_input ''t'' [72, 105] [99] = Inr ct"
    by blast
  then have "Decrypt example_engine ''t'' ct [99] = Inr [72, 105]"
    using Decrypt_Encrypt [OF h, of example_input "''t''" "[72, 105]" "[99]"] by blast
  with ct show ?thesis by simp
qed

end
